theory Spec2Isabelle
  imports Main "HOL-Library.AList"
begin

section \<open>Data model\<close>

text \<open>
  A JavaScript object used as a dictionary is an association list: its own keys in
  insertion order, each with its value. Keys are ordinary breakpoint names (not
  members of \<open>Object.prototype\<close>). The three operations are the ones the component
  uses: \<^verbatim>\<open>k in obj\<close>, \<^verbatim>\<open>obj[k] = v\<close> (also what the spread
  \<^verbatim>\<open>{...obj, [k]: v}\<close> builds, on a copy) and lodash's \<^verbatim>\<open>isEqual\<close>, which
  compares two objects key by key, whatever the order of the keys.
\<close>

type_synonym 'v jsobject = "(string \<times> 'v) list"

definition hasKey :: "string \<Rightarrow> 'v jsobject \<Rightarrow> bool" where
  "hasKey k obj = (k \<in> set (map fst obj))"

definition setKey :: "string \<Rightarrow> 'v \<Rightarrow> 'v jsobject \<Rightarrow> 'v jsobject" where
  "setKey k v obj = AList.update k v obj"

definition isEqual :: "'v jsobject \<Rightarrow> 'v jsobject \<Rightarrow> bool" where
  "isEqual a b = (\<forall>k \<in> set (map fst a @ map fst b). map_of a k = map_of b k)"

text \<open>
  Grid items and layouts. \<^verbatim>\<open>Layout\<close> is imported from \<^verbatim>\<open>./utils\<close> (line 19); the
  fields are those of the specification's data model that the operations below read: the
  identifier, the position, the size and the static flag. A layout is an array of items.
\<close>

record GridItem =
  item_i :: string
  item_x :: int
  item_y :: int
  item_w :: int
  item_h :: int
  item_static :: bool

type_synonym Layout = "GridItem list"

datatype CompactType = Vertical | Horizontal

text \<open>
  Objects are passed by reference. The component compares the \<^verbatim>\<open>breakpoints\<close> and
  \<^verbatim>\<open>cols\<close> objects both by value (\<^verbatim>\<open>isEqual\<close>) and by identity (\<^verbatim>\<open>!==\<close>), and it
  writes into the \<^verbatim>\<open>layouts\<close> object it receives, so a prop that holds an object
  is an address, and the store maps addresses to the objects' contents.
\<close>

type_synonym ref = nat

record Store =
  numberMaps :: "ref \<Rightarrow> int jsobject"
  layoutMaps :: "ref \<Rightarrow> Layout jsobject"

text \<open>The component's state (\<^verbatim>\<open>type State\<close>, lines 23 to 28).\<close>

record State =
  state_layout :: Layout
  state_breakpoint :: string
  state_cols :: int
  state_width :: int

text \<open>
  The props the component reads (\<^verbatim>\<open>type Props\<close>, lines 30 to 52). \<open>breakpoint\<close> is
  optional; \<open>compactType\<close> is \<open>None\<close> for \<^verbatim>\<open>null\<close>; \<open>verticalCompact\<close> is \<open>False\<close>
  only when the prop is literally \<^verbatim>\<open>false\<close>; \<open>children\<close> are the keys of the
  rendered items. The four callbacks are not fields: a call of one is recorded as an
  \<open>effect\<close>.
\<close>

record Props =
  breakpoint :: "string option"
  breakpoints :: ref
  cols :: ref
  layouts :: ref
  width :: int
  viewportWidth :: int
  breakpointFromViewport :: bool
  compactType :: "CompactType option"
  verticalCompact :: bool
  children :: "string list"
  margin :: "int \<times> int"
  containerPadding :: "(int \<times> int) option"

text \<open>
  The second argument of \<^verbatim>\<open>onLayoutChange\<close> is either the very object the host
  passed as \<^verbatim>\<open>layouts\<close> (\<open>SameObject\<close>, an address) or an object built for the call
  (\<open>NewObject\<close>, its contents).
\<close>

datatype layoutsArg = SameObject ref | NewObject "Layout jsobject"

datatype effect =
    OnBreakpointChange string int
  | OnLayoutChange Layout layoutsArg
  | OnWidthChange int "int \<times> int" int "(int \<times> int) option"
  | OnInit State

datatype error = ConfigurationError

text \<open>
  The functions imported from \<^verbatim>\<open>./utils\<close> and \<^verbatim>\<open>./responsiveUtils\<close> (lines 6 to 16)
  are parameters of the component's model. Each is a function of the values it is
  given; \<^verbatim>\<open>getColsFromBreakpoint\<close> may throw.
\<close>

record utils =
  getBreakpointFromWidth :: "int jsobject \<Rightarrow> int \<Rightarrow> string"
  getColsFromBreakpoint :: "string \<Rightarrow> int jsobject \<Rightarrow> error + int"
  findOrGenerateResponsiveLayout ::
    "Layout jsobject \<Rightarrow> int jsobject \<Rightarrow> string \<Rightarrow> string \<Rightarrow> int \<Rightarrow> CompactType option \<Rightarrow> Layout"
  synchronizeLayoutWithChildren ::
    "Layout \<Rightarrow> string list \<Rightarrow> int \<Rightarrow> CompactType option \<Rightarrow> Layout"
  cloneLayout :: "Layout \<Rightarrow> Layout"

section \<open>The component\<close>

text \<open>Lines 147 and 224: the width the breakpoint is resolved from.\<close>

definition widthForBreakpoint :: "Props \<Rightarrow> int" where
  "widthForBreakpoint p = (if breakpointFromViewport p then viewportWidth p else width p)"

text \<open>\<^verbatim>\<open>generateInitialState\<close>, lines 138 to 172.\<close>

definition generateInitialState :: "utils \<Rightarrow> Store \<Rightarrow> Props \<Rightarrow> error + (State \<times> effect list)" where
  "generateInitialState U H p =
    (let bps = numberMaps H (breakpoints p);
         bp = getBreakpointFromWidth U bps (widthForBreakpoint p)
     in case getColsFromBreakpoint U bp (numberMaps H (cols p)) of
          Inl e \<Rightarrow> Inl e
        | Inr colNo \<Rightarrow>
            let ct = (if \<not> verticalCompact p then None else compactType p);
                initialLayout =
                  findOrGenerateResponsiveLayout U (layoutMaps H (layouts p)) bps bp bp colNo ct;
                initState = \<lparr>state_layout = initialLayout, state_breakpoint = bp,
                             state_cols = colNo, state_width = width p\<rparr>
            in Inr (initState, [OnInit initState]))"

text \<open>
  Lines 225 to 227: \<^verbatim>\<open>nextProps.breakpoint || getBreakpointFromWidth(...)\<close>. The
  left operand wins when it is truthy: a string that is not empty.
\<close>

definition newBreakpointOf :: "utils \<Rightarrow> Store \<Rightarrow> Props \<Rightarrow> string" where
  "newBreakpointOf U H nextProps =
    (case breakpoint nextProps of
       Some b \<Rightarrow>
         if b \<noteq> [] then b
         else getBreakpointFromWidth U (numberMaps H (breakpoints nextProps))
                (widthForBreakpoint nextProps)
     | None \<Rightarrow>
         getBreakpointFromWidth U (numberMaps H (breakpoints nextProps))
           (widthForBreakpoint nextProps))"

text \<open>Lines 233 to 237: the test that guards the breakpoint-change block.\<close>

definition breakpointChange :: "Props \<Rightarrow> State \<Rightarrow> Props \<Rightarrow> string \<Rightarrow> bool" where
  "breakpointChange props st nextProps newBreakpoint =
    (state_breakpoint st \<noteq> newBreakpoint \<or>
     breakpoints props \<noteq> breakpoints nextProps \<or>
     cols props \<noteq> cols nextProps)"

text \<open>Lines 274 to 279: the call of \<^verbatim>\<open>this.props.onWidthChange\<close>.\<close>

definition widthCallback :: "Props \<Rightarrow> int \<Rightarrow> effect" where
  "widthCallback nextProps newCols =
    OnWidthChange (width nextProps) (margin nextProps) newCols (containerPadding nextProps)"

text \<open>
  Lines 239 and 240: the current layout is written into the received \<^verbatim>\<open>layouts\<close>
  under the last breakpoint when that key is missing.
\<close>

definition preserveLayout :: "utils \<Rightarrow> State \<Rightarrow> Layout jsobject \<Rightarrow> Layout jsobject" where
  "preserveLayout U st ls =
    (if \<not> hasKey (state_breakpoint st) ls
     then setKey (state_breakpoint st) (cloneLayout U (state_layout st)) ls
     else ls)"

text \<open>Lines 243 to 258: the layout found or generated, then synchronized with the children.\<close>

definition newLayoutOf :: "utils \<Rightarrow> Store \<Rightarrow> State \<Rightarrow> Props \<Rightarrow> string \<Rightarrow> int \<Rightarrow> Layout" where
  "newLayoutOf U H st nextProps newBreakpoint newCols =
    synchronizeLayoutWithChildren U
      (findOrGenerateResponsiveLayout U
         (preserveLayout U st (layoutMaps H (layouts nextProps)))
         (numberMaps H (breakpoints nextProps)) newBreakpoint (state_breakpoint st) newCols
         (compactType nextProps))
      (children nextProps) newCols (compactType nextProps)"

text \<open>
  Lines 239 to 261: the contents of the received \<^verbatim>\<open>layouts\<close> object after the two
  writes of the breakpoint-change block.
\<close>

definition storedLayouts :: "utils \<Rightarrow> Store \<Rightarrow> State \<Rightarrow> Props \<Rightarrow> string \<Rightarrow> int \<Rightarrow> Layout jsobject" where
  "storedLayouts U H st nextProps newBreakpoint newCols =
    setKey newBreakpoint (newLayoutOf U H st nextProps newBreakpoint newCols)
      (preserveLayout U st (layoutMaps H (layouts nextProps)))"

text \<open>
  \<^verbatim>\<open>onWidthChange\<close>, lines 214 to 280. The result is the state after
  \<^verbatim>\<open>setState\<close>, the store after the writes into \<^verbatim>\<open>nextProps.layouts\<close>, and the
  callbacks in the order they were called; an exception of
  \<^verbatim>\<open>getColsFromBreakpoint\<close> (line 230) leaves before any of them.
\<close>

definition onWidthChange ::
  "utils \<Rightarrow> Store \<Rightarrow> Props \<Rightarrow> State \<Rightarrow> Props \<Rightarrow> error + (State \<times> Store \<times> effect list)" where
  "onWidthChange U H props st nextProps =
    (let newBreakpoint = newBreakpointOf U H nextProps
     in case getColsFromBreakpoint U newBreakpoint (numberMaps H (cols nextProps)) of
          Inl e \<Rightarrow> Inl e
        | Inr newCols \<Rightarrow>
            if breakpointChange props st nextProps newBreakpoint then
              let layout = newLayoutOf U H st nextProps newBreakpoint newCols
              in Inr (st\<lparr>state_breakpoint := newBreakpoint, state_layout := layout,
                          state_cols := newCols\<rparr>,
                      H\<lparr>layoutMaps := (layoutMaps H)
                           (layouts nextProps :=
                              storedLayouts U H st nextProps newBreakpoint newCols)\<rparr>,
                      [OnBreakpointChange newBreakpoint newCols,
                       OnLayoutChange layout (SameObject (layouts nextProps)),
                       widthCallback nextProps newCols])
            else Inr (st, H, [widthCallback nextProps newCols]))"

text \<open>Lines 176 to 182: the test of the first branch of \<^verbatim>\<open>componentWillReceiveProps\<close>.\<close>

definition widthAffectingChange :: "Store \<Rightarrow> Props \<Rightarrow> Props \<Rightarrow> bool" where
  "widthAffectingChange H props nextProps =
    (width nextProps \<noteq> width props \<or>
     viewportWidth nextProps \<noteq> viewportWidth props \<or>
     breakpoint nextProps \<noteq> breakpoint props \<or>
     \<not> isEqual (numberMaps H (breakpoints nextProps)) (numberMaps H (breakpoints props)) \<or>
     \<not> isEqual (numberMaps H (cols nextProps)) (numberMaps H (cols props)))"

text \<open>Line 184: the test of the second branch.\<close>

definition layoutsChange :: "Store \<Rightarrow> Props \<Rightarrow> Props \<Rightarrow> bool" where
  "layoutsChange H props nextProps =
    (\<not> isEqual (layoutMaps H (layouts nextProps)) (layoutMaps H (layouts props)))"

text \<open>\<^verbatim>\<open>componentWillReceiveProps\<close>, lines 174 to 200.\<close>

definition componentWillReceiveProps ::
  "utils \<Rightarrow> Store \<Rightarrow> Props \<Rightarrow> State \<Rightarrow> Props \<Rightarrow> error + (State \<times> Store \<times> effect list)" where
  "componentWillReceiveProps U H props st nextProps =
    (if widthAffectingChange H props nextProps then onWidthChange U H props st nextProps
     else if layoutsChange H props nextProps then
       let newLayout = findOrGenerateResponsiveLayout U (layoutMaps H (layouts nextProps))
                         (numberMaps H (breakpoints nextProps)) (state_breakpoint st)
                         (state_breakpoint st) (state_cols st) (compactType nextProps)
       in Inr (st\<lparr>state_layout := newLayout\<rparr>, H, [])
     else Inr (st, H, []))"

text \<open>
  \<^verbatim>\<open>onLayoutChange\<close>, lines 203 to 208: the handler given to the grid. It calls the
  host's \<^verbatim>\<open>onLayoutChange\<close> with a new object and sets nothing.
\<close>

definition onLayoutChange :: "Store \<Rightarrow> Props \<Rightarrow> State \<Rightarrow> Layout \<Rightarrow> State \<times> Store \<times> effect list" where
  "onLayoutChange H props st layout =
    (st, H, [OnLayoutChange layout
               (NewObject (setKey (state_breakpoint st) layout (layoutMaps H (layouts props))))])"

section \<open>The imported functions, as the specification describes them\<close>

text \<open>\<^verbatim>\<open>defaultProps\<close>, lines 126 and 127.\<close>

definition defaultBreakpoints :: "int jsobject" where
  "defaultBreakpoints =
    [(''lg'', 1200), (''md'', 996), (''sm'', 768), (''xs'', 480), (''xxs'', 0)]"

definition defaultCols :: "int jsobject" where
  "defaultCols = [(''lg'', 12), (''md'', 10), (''sm'', 6), (''xs'', 4), (''xxs'', 2)]"

text \<open>
  Modelled from the spec: \<^verbatim>\<open>getBreakpointFromWidth\<close> of \<^verbatim>\<open>./responsiveUtils\<close> is not
  among the sources. Section 4.1, \<open>resolveBreakpoint\<close>: the entries are sorted by
  threshold, descending (entries with the same threshold keep their order); the result
  is the name of the first entry whose threshold is at most the width, and the entry
  with the smallest threshold when there is none. An empty table has no entry to
  return.
\<close>

definition sortBreakpoints :: "int jsobject \<Rightarrow> int jsobject" where
  "sortBreakpoints bps = sort_key (\<lambda>e. - snd e) bps"

definition resolveBreakpoint :: "int jsobject \<Rightarrow> int \<Rightarrow> string option" where
  "resolveBreakpoint bps w =
    (case find (\<lambda>e. snd e \<le> w) (sortBreakpoints bps) of
       Some e \<Rightarrow> Some (fst e)
     | None \<Rightarrow>
        (case sortBreakpoints bps of
           [] \<Rightarrow> None
         | e # es \<Rightarrow> Some (fst (last (e # es)))))"

text \<open>
  Modelled from the spec: \<^verbatim>\<open>getColsFromBreakpoint\<close> of \<^verbatim>\<open>./responsiveUtils\<close> is not
  among the sources. Section 4.1, \<open>resolveColumns\<close>: a direct lookup, which fails
  with a configuration error when the breakpoint has no entry.
\<close>

definition resolveColumns :: "string \<Rightarrow> int jsobject \<Rightarrow> error + int" where
  "resolveColumns bp columnMap =
    (case map_of columnMap bp of None \<Rightarrow> Inl ConfigurationError | Some c \<Rightarrow> Inr c)"

text \<open>
  Modelled from the spec: \<^verbatim>\<open>synchronizeLayoutWithChildren\<close> of \<^verbatim>\<open>./utils\<close> is not
  among the sources. Section 4.3, \<open>synchronize\<close>, in the order of its sentences.

  First, every live identifier that the layout lacks gets a new item of size 1 by 1,
  appended, at the first free cell: a cell that no item of the layout covers, rows
  scanned first for vertical and no compaction, columns first for horizontal. The scan
  covers the columns \<open>0\<close> to \<open>c - 1\<close> and the rows \<open>0\<close> to the bottom of the layout,
  a row that is free. The data model has \<open>c\<close> positive; with no column to scan the
  item goes to column \<open>0\<close> of that row.
\<close>

definition covers :: "GridItem \<Rightarrow> int \<times> int \<Rightarrow> bool" where
  "covers it cell =
    (item_x it \<le> fst cell \<and> fst cell < item_x it + item_w it \<and>
     item_y it \<le> snd cell \<and> snd cell < item_y it + item_h it)"

definition bottom :: "Layout \<Rightarrow> int" where
  "bottom layout = fold (\<lambda>it b. max b (item_y it + item_h it)) layout 0"

definition rightEdge :: "Layout \<Rightarrow> int" where
  "rightEdge layout = fold (\<lambda>it b. max b (item_x it + item_w it)) layout 0"

definition rowMajor :: "int \<Rightarrow> int \<Rightarrow> (int \<times> int) list" where
  "rowMajor c b = concat (map (\<lambda>cy. map (\<lambda>cx. (cx, cy)) [0..c - 1]) [0..b])"

definition columnMajor :: "int \<Rightarrow> int \<Rightarrow> (int \<times> int) list" where
  "columnMajor c b = concat (map (\<lambda>cx. map (\<lambda>cy. (cx, cy)) [0..b]) [0..c - 1])"

definition freeCell :: "Layout \<Rightarrow> int \<Rightarrow> CompactType option \<Rightarrow> int \<times> int" where
  "freeCell layout c t =
    (case find (\<lambda>cell. list_all (\<lambda>it. \<not> covers it cell) layout)
            (if t = Some Horizontal then columnMajor c (bottom layout)
             else rowMajor c (bottom layout)) of
       Some cell \<Rightarrow> cell
     | None \<Rightarrow> (0, bottom layout))"

definition newItem :: "Layout \<Rightarrow> string \<Rightarrow> int \<Rightarrow> CompactType option \<Rightarrow> GridItem" where
  "newItem layout k c t =
    \<lparr>item_i = k, item_x = fst (freeCell layout c t), item_y = snd (freeCell layout c t),
     item_w = 1, item_h = 1, item_static = False\<rparr>"

fun addMissing :: "Layout \<Rightarrow> string list \<Rightarrow> int \<Rightarrow> CompactType option \<Rightarrow> Layout" where
  "addMissing layout [] c t = layout"
| "addMissing layout (k # ks) c t =
     addMissing (if k \<in> set (map item_i layout) then layout
                 else layout @ [newItem layout k c t]) ks c t"

text \<open>
  Modelled from the spec: section 4.3, second sentence. Every item whose identifier is
  not live is removed.
\<close>

definition removeStale :: "string list \<Rightarrow> Layout \<Rightarrow> Layout" where
  "removeStale ids layout = filter (\<lambda>it. item_i it \<in> set ids) layout"

text \<open>
  Modelled from the spec: section 4.3, compaction. Every item is clamped into the columns \<open>0\<close> to \<open>c - 1\<close>: its
  width is cut to \<open>c\<close> and it is moved left until it ends inside, never left of
  column \<open>0\<close>. With no compaction that is all. Otherwise the items that are not static
  are pulled, in the order of the layout, upward (vertical) or leftward (horizontal): to
  the least coordinate from \<open>0\<close> at which the item overlaps neither a static item nor
  an item pulled before it. Static items stay where they are.
\<close>

definition collides :: "GridItem \<Rightarrow> GridItem \<Rightarrow> bool" where
  "collides a b =
    (item_x a < item_x b + item_w b \<and> item_x b < item_x a + item_w a \<and>
     item_y a < item_y b + item_h b \<and> item_y b < item_y a + item_h a)"

definition clampItem :: "int \<Rightarrow> GridItem \<Rightarrow> GridItem" where
  "clampItem c it =
    (let w' = min (item_w it) c
     in it\<lparr>item_x := max 0 (min (item_x it) (c - w')), item_w := w'\<rparr>)"

definition moveTo :: "CompactType \<Rightarrow> int \<Rightarrow> GridItem \<Rightarrow> GridItem" where
  "moveTo d v it =
    (case d of Vertical \<Rightarrow> it\<lparr>item_y := v\<rparr> | Horizontal \<Rightarrow> it\<lparr>item_x := v\<rparr>)"

definition extent :: "CompactType \<Rightarrow> Layout \<Rightarrow> int" where
  "extent d obstacles =
    (case d of Vertical \<Rightarrow> bottom obstacles | Horizontal \<Rightarrow> rightEdge obstacles)"

definition pull :: "CompactType \<Rightarrow> Layout \<Rightarrow> GridItem \<Rightarrow> GridItem" where
  "pull d obstacles it =
    (case find (\<lambda>v. list_all (\<lambda>ob. \<not> collides (moveTo d v it) ob) obstacles)
            [0..extent d obstacles] of
       Some v \<Rightarrow> moveTo d v it
     | None \<Rightarrow> moveTo d (extent d obstacles) it)"

fun compactItems :: "CompactType \<Rightarrow> Layout \<Rightarrow> Layout \<Rightarrow> Layout \<Rightarrow> Layout" where
  "compactItems d statics placed [] = []"
| "compactItems d statics placed (it # rest) =
     (if item_static it then it # compactItems d statics placed rest
      else pull d (statics @ placed) it
             # compactItems d statics (placed @ [pull d (statics @ placed) it]) rest)"

definition compact :: "int \<Rightarrow> CompactType option \<Rightarrow> Layout \<Rightarrow> Layout" where
  "compact c t layout =
    (let bounded = map (clampItem c) layout
     in case t of
          None \<Rightarrow> bounded
        | Some d \<Rightarrow> compactItems d (filter item_static bounded) [] bounded)"

definition synchronize :: "Layout \<Rightarrow> string list \<Rightarrow> int \<Rightarrow> CompactType option \<Rightarrow> Layout" where
  "synchronize layout liveItemIds c t =
    compact c t (removeStale liveItemIds (addMissing layout liveItemIds c t))"

text \<open>
  The relation between an item and the same item after compaction along \<open>d\<close>: a static
  item is unchanged, any other differs at most in the coordinate that \<open>d\<close> moves.
\<close>

definition moved :: "CompactType \<Rightarrow> GridItem \<Rightarrow> GridItem \<Rightarrow> bool" where
  "moved d a b = (if item_static a then b = a else (\<exists>v. b = moveTo d v a))"

section \<open>A configuration to run the component on\<close>

text \<open>
  Modelled from the spec: \<^verbatim>\<open>cloneLayout\<close> and \<^verbatim>\<open>findOrGenerateResponsiveLayout\<close>
  are not among the sources. The sample helpers are the functions modelled above, a
  \<^verbatim>\<open>cloneLayout\<close> that returns a copy (a copy has the value of the original), and
  the first step of section 4.2 for the generator: the stored layout of the target
  breakpoint. The runs below store a layout for every breakpoint they generate for; for
  a breakpoint with none the sample generator returns the empty layout. An empty
  breakpoints table resolves to no name, here the empty one.
\<close>

definition sampleUtils :: utils where
  "sampleUtils =
    \<lparr>getBreakpointFromWidth =
       (\<lambda>bps w. case resolveBreakpoint bps w of Some n \<Rightarrow> n | None \<Rightarrow> []),
     getColsFromBreakpoint = resolveColumns,
     findOrGenerateResponsiveLayout =
       (\<lambda>ls bps target fallback c t. case map_of ls target of Some l \<Rightarrow> l | None \<Rightarrow> []),
     synchronizeLayoutWithChildren = synchronize,
     cloneLayout = (\<lambda>l. l)\<rparr>"

definition layoutLg :: Layout where
  "layoutLg =
    [\<lparr>item_i = ''a'', item_x = 0, item_y = 0, item_w = 2, item_h = 2, item_static = False\<rparr>,
     \<lparr>item_i = ''b'', item_x = 2, item_y = 0, item_w = 2, item_h = 2, item_static = False\<rparr>]"

definition layoutSm :: Layout where
  "layoutSm =
    [\<lparr>item_i = ''a'', item_x = 0, item_y = 0, item_w = 3, item_h = 1, item_static = False\<rparr>,
     \<lparr>item_i = ''b'', item_x = 3, item_y = 0, item_w = 3, item_h = 1, item_static = False\<rparr>]"

text \<open>
  The objects of the store: the default breakpoints at addresses 2 and 3 (two objects
  with the same contents), the default columns at 4, a layouts object with the keys
  \<open>lg\<close> and \<open>sm\<close> at 10, one with the key \<open>sm\<close> only at 11, and one with the key
  \<open>lg\<close> only, and another layout for it, at 12.
\<close>

definition sampleStore :: Store where
  "sampleStore =
    \<lparr>numberMaps = (\<lambda>r. if r = 2 \<or> r = 3 then defaultBreakpoints
                        else if r = 4 then defaultCols else []),
     layoutMaps = (\<lambda>r. if r = 10 then [(''lg'', layoutLg), (''sm'', layoutSm)]
                        else if r = 11 then [(''sm'', layoutSm)]
                        else if r = 12 then [(''lg'', layoutSm)] else [])\<rparr>"

definition sampleProps :: Props where
  "sampleProps =
    \<lparr>breakpoint = None, breakpoints = 2, cols = 4, layouts = 10, width = 1300,
     viewportWidth = 1300, breakpointFromViewport = False, compactType = Some Vertical,
     verticalCompact = True, children = [''a'', ''b''], margin = (10, 10),
     containerPadding = None\<rparr>"

definition sampleState :: State where
  "sampleState =
    \<lparr>state_layout = layoutLg, state_breakpoint = ''lg'', state_cols = 12, state_width = 1300\<rparr>"

section \<open>The breakpoint resolver\<close>

lemma find_descending:
  "sorted (map (\<lambda>e. - snd e) xs) \<Longrightarrow> find (\<lambda>e. snd e \<le> (w::int)) xs = Some e \<Longrightarrow>
     e \<in> set xs \<and> snd e \<le> w \<and> (\<forall>d\<in>set xs. snd d \<le> w \<longrightarrow> snd d \<le> snd e)"
proof (induction xs)
  case Nil
  then show ?case by simp
next
  case (Cons a xs)
  show ?case
  proof (cases "snd a \<le> w")
    case True
    with Cons.prems have "e = a" by simp
    moreover have "\<forall>d\<in>set xs. snd d \<le> snd a" using Cons.prems(1) by simp
    ultimately show ?thesis using True by simp
  next
    case False
    with Cons.prems have "find (\<lambda>e. snd e \<le> w) xs = Some e" "sorted (map (\<lambda>e. - snd e) xs)"
      by simp_all
    with Cons.IH have "e \<in> set xs \<and> snd e \<le> w \<and> (\<forall>d\<in>set xs. snd d \<le> w \<longrightarrow> snd d \<le> snd e)"
      by blast
    with False show ?thesis by auto
  qed
qed

lemma last_descending:
  "sorted (map (\<lambda>e. - snd e) xs) \<Longrightarrow> xs \<noteq> [] \<Longrightarrow> \<forall>d\<in>set xs. snd (last xs) \<le> (snd d :: int)"
  by (induction xs) auto

lemma resolveBreakpoint_general:
  assumes "bps \<noteq> []"
  shows "\<exists>e\<in>set bps. resolveBreakpoint bps w = Some (fst e) \<and>
           (if \<exists>d\<in>set bps. snd d \<le> w
            then snd e \<le> w \<and> (\<forall>d\<in>set bps. snd d \<le> w \<longrightarrow> snd d \<le> snd e)
            else \<forall>d\<in>set bps. snd e \<le> snd d)"
proof -
  let ?s = "sortBreakpoints bps"
  have srt: "sorted (map (\<lambda>e. - snd e) ?s)" and st: "set ?s = set bps"
    by (simp_all add: sortBreakpoints_def)
  from st assms have ne: "?s \<noteq> []" by auto
  show ?thesis
  proof (cases "find (\<lambda>e. snd e \<le> w) ?s")
    case None
    then have no: "\<forall>d\<in>set bps. \<not> snd d \<le> w" using st unfolding find_None_iff by blast
    from ne obtain a as where sa: "?s = a # as" by (cases ?s) auto
    have r: "resolveBreakpoint bps w = Some (fst (last ?s))"
      using None sa by (simp add: resolveBreakpoint_def)
    have "last ?s \<in> set bps" using ne st last_in_set by blast
    moreover have "\<forall>d\<in>set bps. snd (last ?s) \<le> snd d"
      using last_descending [OF srt ne] st by simp
    ultimately show ?thesis using r no by auto
  next
    case (Some e)
    from find_descending [OF srt Some] st
    have e: "e \<in> set bps" "snd e \<le> w" "\<forall>d\<in>set bps. snd d \<le> w \<longrightarrow> snd d \<le> snd e"
      by auto
    have "resolveBreakpoint bps w = Some (fst e)"
      using Some by (simp add: resolveBreakpoint_def)
    with e show ?thesis by auto
  qed
qed

lemma sortBreakpoints_default: "sortBreakpoints defaultBreakpoints = defaultBreakpoints"
  by (simp add: sortBreakpoints_def defaultBreakpoints_def)

lemma resolve_default:
  "resolveBreakpoint defaultBreakpoints 1300 = Some ''lg''"
  "resolveBreakpoint defaultBreakpoints 1250 = Some ''lg''"
  "resolveBreakpoint defaultBreakpoints 1024 = Some ''md''"
  "resolveBreakpoint defaultBreakpoints 900 = Some ''sm''"
  "resolveBreakpoint defaultBreakpoints 500 = Some ''xs''"
  "resolveBreakpoint defaultBreakpoints 10 = Some ''xxs''"
  by (simp_all add: resolveBreakpoint_def sortBreakpoints_default) (simp_all add: defaultBreakpoints_def)

text \<open>
  C7. For every breakpoints table with at least one entry and every width \<open>w\<close>,
  \<open>resolveBreakpoint\<close> returns the name of an entry of the table. When some threshold
  is at most \<open>w\<close>, the threshold of that entry is at most \<open>w\<close> and no entry with a
  threshold at most \<open>w\<close> has a larger one; when none is, it is an entry with the
  smallest threshold. With the default table, the widths 1024, 500, 10 and 1300 resolve
  to \<open>md\<close>, \<open>xs\<close>, \<open>xxs\<close> and \<open>lg\<close>.
\<close>

theorem resolveBreakpoint_law:
  "(bps \<noteq> [] \<longrightarrow>
      (\<exists>e\<in>set bps. resolveBreakpoint bps w = Some (fst e) \<and>
         (if \<exists>d\<in>set bps. snd d \<le> w
          then snd e \<le> w \<and> (\<forall>d\<in>set bps. snd d \<le> w \<longrightarrow> snd d \<le> snd e)
          else \<forall>d\<in>set bps. snd e \<le> snd d))) \<and>
   resolveBreakpoint defaultBreakpoints 1024 = Some ''md'' \<and>
   resolveBreakpoint defaultBreakpoints 500 = Some ''xs'' \<and>
   resolveBreakpoint defaultBreakpoints 10 = Some ''xxs'' \<and>
   resolveBreakpoint defaultBreakpoints 1300 = Some ''lg''"
  using resolveBreakpoint_general [of bps w] by (simp add: resolve_default)

theorem resolveBreakpoint_law_witness:
  "defaultBreakpoints \<noteq> [] \<and>
   (\<exists>e\<in>set defaultBreakpoints. resolveBreakpoint defaultBreakpoints 900 = Some (fst e) \<and>
      snd e \<le> 900 \<and> (\<forall>d\<in>set defaultBreakpoints. snd d \<le> 900 \<longrightarrow> snd d \<le> snd e))"
proof -
  have ne: "defaultBreakpoints \<noteq> []" by (simp add: defaultBreakpoints_def)
  have ex: "\<exists>d\<in>set defaultBreakpoints. snd d \<le> 900" by (simp add: defaultBreakpoints_def)
  from resolveBreakpoint_law [of defaultBreakpoints 900] ne
  have "\<exists>e\<in>set defaultBreakpoints. resolveBreakpoint defaultBreakpoints 900 = Some (fst e) \<and>
         (if \<exists>d\<in>set defaultBreakpoints. snd d \<le> 900
          then snd e \<le> 900 \<and> (\<forall>d\<in>set defaultBreakpoints. snd d \<le> 900 \<longrightarrow> snd d \<le> snd e)
          else \<forall>d\<in>set defaultBreakpoints. snd e \<le> snd d)"
    by blast
  then show ?thesis unfolding if_P [OF ex] using ne by blast
qed

section \<open>The synchronizer\<close>

lemma clampItem_idem: "clampItem c (clampItem c it) = clampItem c it"
  by (simp add: clampItem_def Let_def)

lemma clampItem_static: "item_static (clampItem c it) = item_static it"
  by (simp add: clampItem_def Let_def)

lemma clampItem_id: "item_i (clampItem c it) = item_i it"
  by (simp add: clampItem_def Let_def)

lemma moveTo_moveTo: "moveTo d v (moveTo d u it) = moveTo d v it"
  by (cases d) (simp_all add: moveTo_def)

lemma moveTo_static: "item_static (moveTo d v it) = item_static it"
  by (cases d) (simp_all add: moveTo_def)

lemma moveTo_id: "item_i (moveTo d v it) = item_i it"
  by (cases d) (simp_all add: moveTo_def)

text \<open>Where an item is pulled to does not depend on where it was along that axis.\<close>

lemma pull_moveTo: "pull d obstacles (moveTo d u it) = pull d obstacles it"
  by (simp add: pull_def moveTo_moveTo split: option.splits)

lemma pull_is_moveTo: "\<exists>v. pull d obstacles it = moveTo d v it"
  by (auto simp: pull_def split: option.splits)

lemma compactItems_moved:
  "list_all2 (moved d) xs ys \<Longrightarrow>
     compactItems d statics placed xs = compactItems d statics placed ys"
proof (induction xs ys arbitrary: placed rule: list_all2_induct)
  case Nil
  then show ?case by simp
next
  case (Cons a xs b ys)
  show ?case
  proof (cases "item_static a")
    case True
    with Cons.hyps(1) have "b = a" by (simp add: moved_def)
    with True Cons.IH show ?thesis by simp
  next
    case False
    with Cons.hyps(1) obtain v where b: "b = moveTo d v a" by (auto simp: moved_def)
    with False have nb: "\<not> item_static b" by (simp add: moveTo_static)
    have "pull d (statics @ placed) b = pull d (statics @ placed) a"
      by (simp add: b pull_moveTo)
    with False nb Cons.IH show ?thesis by simp
  qed
qed

lemma moved_compactItems: "list_all2 (moved d) xs (compactItems d statics placed xs)"
proof (induction xs arbitrary: placed)
  case Nil
  then show ?case by simp
next
  case (Cons a xs)
  show ?case
  proof (cases "item_static a")
    case True
    then show ?thesis using Cons.IH by (simp add: moved_def)
  next
    case False
    then show ?thesis using Cons.IH pull_is_moveTo [of d "statics @ placed" a]
      by (simp add: moved_def)
  qed
qed

lemma moved_id: "moved d a b \<Longrightarrow> item_i b = item_i a"
  by (auto simp: moved_def moveTo_id split: if_splits)

lemma moved_filter_static:
  "list_all2 (moved d) xs ys \<Longrightarrow> filter item_static ys = filter item_static xs"
proof (induction xs ys rule: list_all2_induct)
  case Nil
  then show ?case by simp
next
  case (Cons a xs b ys)
  then show ?case by (auto simp: moved_def moveTo_static split: if_splits)
qed

lemma moved_ids: "list_all2 (moved d) xs ys \<Longrightarrow> map item_i ys = map item_i xs"
  by (induction xs ys rule: list_all2_induct) (simp_all add: moved_id)

text \<open>Clamping a compacted item again keeps it related to the clamped original.\<close>

lemma moved_clampItem:
  assumes "clampItem c a = a" and "moved d a b"
  shows "moved d a (clampItem c b)"
proof (cases "item_static a")
  case True
  with assms show ?thesis by (simp add: moved_def)
next
  case False
  with assms(2) obtain v where b: "b = moveTo d v a" by (auto simp: moved_def)
  from assms(1) have "item_w (clampItem c a) = item_w a" by simp
  then have w: "min (item_w a) c = item_w a" by (simp add: clampItem_def Let_def)
  show ?thesis
  proof (cases d)
    case Vertical
    have "clampItem c b = moveTo d v (clampItem c a)"
      by (simp add: b Vertical clampItem_def moveTo_def Let_def)
    with assms(1) False show ?thesis by (auto simp: moved_def)
  next
    case Horizontal
    have "clampItem c b = moveTo d (max 0 (min v (c - item_w a))) a"
      using w by (simp add: b Horizontal clampItem_def moveTo_def Let_def)
    with False show ?thesis by (auto simp: moved_def)
  qed
qed

lemma moved_map_clampItem:
  "list_all2 (moved d) xs ys \<Longrightarrow> \<forall>a\<in>set xs. clampItem c a = a \<Longrightarrow>
     list_all2 (moved d) xs (map (clampItem c) ys)"
  by (induction xs ys rule: list_all2_induct) (simp_all add: moved_clampItem)

lemma compact_idem: "compact c t (compact c t layout) = compact c t layout"
proof (cases t)
  case None
  then show ?thesis by (simp add: compact_def clampItem_idem)
next
  case (Some d)
  let ?B = "map (clampItem c) layout"
  let ?S = "filter item_static ?B"
  let ?C = "compactItems d ?S [] ?B"
  let ?B2 = "map (clampItem c) ?C"
  have fixed: "\<forall>a\<in>set ?B. clampItem c a = a" by (auto simp: clampItem_idem)
  have BC: "list_all2 (moved d) ?B ?C" by (rule moved_compactItems)
  have BB2: "list_all2 (moved d) ?B ?B2"
    by (rule moved_map_clampItem [OF BC fixed])
  have S2: "filter item_static ?B2 = ?S" by (rule moved_filter_static [OF BB2])
  have "compactItems d (filter item_static ?B2) [] ?B2 = ?C"
    unfolding S2 by (rule compactItems_moved [OF BB2, symmetric])
  then show ?thesis by (simp add: compact_def Some Let_def)
qed

lemma compact_ids: "map item_i (compact c t layout) = map item_i layout"
proof (cases t)
  case None
  then show ?thesis by (simp add: compact_def clampItem_id comp_def)
next
  case (Some d)
  have "map item_i (compactItems d (filter item_static (map (clampItem c) layout)) []
          (map (clampItem c) layout)) = map item_i (map (clampItem c) layout)"
    by (rule moved_ids [OF moved_compactItems])
  then show ?thesis by (simp add: compact_def Some clampItem_id comp_def Let_def)
qed

lemma addMissing_present:
  "set ks \<subseteq> set (map item_i layout) \<Longrightarrow> addMissing layout ks c t = layout"
  by (induction ks arbitrary: layout) auto

lemma addMissing_keeps:
  "set (map item_i layout) \<subseteq> set (map item_i (addMissing layout ks c t))"
proof (induction ks arbitrary: layout)
  case Nil
  then show ?case by simp
next
  case (Cons k ks)
  have "set (map item_i layout) \<subseteq>
        set (map item_i (if k \<in> set (map item_i layout) then layout
                         else layout @ [newItem layout k c t]))"
    by auto
  also have "\<dots> \<subseteq> set (map item_i (addMissing layout (k # ks) c t))"
    using Cons.IH by simp
  finally show ?case .
qed

lemma addMissing_all: "set ks \<subseteq> set (map item_i (addMissing layout ks c t))"
proof (induction ks arbitrary: layout)
  case Nil
  then show ?case by simp
next
  case (Cons k ks)
  let ?l = "if k \<in> set (map item_i layout) then layout else layout @ [newItem layout k c t]"
  have "k \<in> set (map item_i ?l)" by (simp add: newItem_def)
  then have "k \<in> set (map item_i (addMissing ?l ks c t))"
    using addMissing_keeps [of ?l ks c t] by blast
  moreover have "set ks \<subseteq> set (map item_i (addMissing ?l ks c t))" by (rule Cons.IH)
  ultimately show ?case by simp
qed

text \<open>After a synchronization the identifiers of the layout are the live ones.\<close>

lemma synchronize_ids: "set (map item_i (synchronize layout ks c t)) = set ks"
proof -
  have "set (map item_i (removeStale ks (addMissing layout ks c t))) = set ks"
    using addMissing_all [of ks layout c t] by (auto simp: removeStale_def)
  then show ?thesis by (simp add: synchronize_def compact_ids)
qed

text \<open>
  C8. \<open>synchronize\<close> is idempotent: for every layout, list of live identifiers,
  column count and compaction type, synchronizing the synchronized layout against the
  same identifiers, columns and compaction returns it unchanged, item by item and field
  by field.
\<close>

theorem synchronize_idempotent:
  "synchronize (synchronize layout ks c t) ks c t = synchronize layout ks c t"
proof -
  let ?R = "synchronize layout ks c t"
  have ids: "set (map item_i ?R) = set ks" by (rule synchronize_ids)
  then have "addMissing ?R ks c t = ?R" by (simp add: addMissing_present)
  moreover have "removeStale ks ?R = ?R"
    using ids by (auto simp: removeStale_def filter_id_conv)
  ultimately have "synchronize ?R ks c t = compact c t ?R" by (simp add: synchronize_def)
  also have "\<dots> = ?R" unfolding synchronize_def by (rule compact_idem)
  finally show ?thesis .
qed

text \<open>
  An instance: with \<open>a\<close> no longer live and \<open>c\<close> new, the first synchronization of
  the sample layout drops \<open>a\<close> and places \<open>c\<close> in the first free cell of the top
  row; the second changes nothing.
\<close>

theorem synchronize_idempotent_witness:
  "synchronize
     [\<lparr>item_i = ''b'', item_x = 2, item_y = 0, item_w = 2, item_h = 2, item_static = False\<rparr>,
      \<lparr>item_i = ''c'', item_x = 4, item_y = 0, item_w = 1, item_h = 1, item_static = False\<rparr>]
     [''b'', ''c''] 12 (Some Vertical) =
   [\<lparr>item_i = ''b'', item_x = 2, item_y = 0, item_w = 2, item_h = 2, item_static = False\<rparr>,
    \<lparr>item_i = ''c'', item_x = 4, item_y = 0, item_w = 1, item_h = 1, item_static = False\<rparr>]"
proof -
  have first: "synchronize layoutLg [''b'', ''c''] 12 (Some Vertical) =
    [\<lparr>item_i = ''b'', item_x = 2, item_y = 0, item_w = 2, item_h = 2, item_static = False\<rparr>,
     \<lparr>item_i = ''c'', item_x = 4, item_y = 0, item_w = 1, item_h = 1, item_static = False\<rparr>]"
    by code_simp
  from synchronize_idempotent [of layoutLg "[''b'', ''c'']" 12 "Some Vertical"]
  show ?thesis unfolding first .
qed

section \<open>The transitions of the component\<close>

lemma isEqual_refl: "isEqual a a"
  by (simp add: isEqual_def)

lemma onWidthChange_change:
  assumes "getColsFromBreakpoint U (newBreakpointOf U H nextProps) (numberMaps H (cols nextProps)) = Inr newCols"
    and "breakpointChange props st nextProps (newBreakpointOf U H nextProps)"
  shows "onWidthChange U H props st nextProps =
    Inr (st\<lparr>state_breakpoint := newBreakpointOf U H nextProps,
            state_layout := newLayoutOf U H st nextProps (newBreakpointOf U H nextProps) newCols,
            state_cols := newCols\<rparr>,
         H\<lparr>layoutMaps := (layoutMaps H)
              (layouts nextProps :=
                 storedLayouts U H st nextProps (newBreakpointOf U H nextProps) newCols)\<rparr>,
         [OnBreakpointChange (newBreakpointOf U H nextProps) newCols,
          OnLayoutChange (newLayoutOf U H st nextProps (newBreakpointOf U H nextProps) newCols)
            (SameObject (layouts nextProps)),
          widthCallback nextProps newCols])"
  using assms by (simp add: onWidthChange_def Let_def)

lemma onWidthChange_same:
  assumes "getColsFromBreakpoint U (newBreakpointOf U H nextProps) (numberMaps H (cols nextProps)) = Inr newCols"
    and "\<not> breakpointChange props st nextProps (newBreakpointOf U H nextProps)"
  shows "onWidthChange U H props st nextProps = Inr (st, H, [widthCallback nextProps newCols])"
  using assms by (simp add: onWidthChange_def Let_def)

lemma synchronize_layoutSm: "synchronize layoutSm [''a'', ''b''] 6 (Some Vertical) = layoutSm"
  by (simp add: synchronize_def layoutSm_def removeStale_def compact_def clampItem_def pull_def
      moveTo_def extent_def bottom_def collides_def Let_def upto.simps)

lemma synchronize_layoutLg: "synchronize layoutLg [''a'', ''b''] 12 (Some Vertical) = layoutLg"
  by (simp add: synchronize_def layoutLg_def removeStale_def compact_def clampItem_def pull_def
      moveTo_def extent_def bottom_def collides_def Let_def upto.simps)

lemma sample_objects:
  "numberMaps sampleStore 2 = defaultBreakpoints"
  "numberMaps sampleStore 3 = defaultBreakpoints"
  "numberMaps sampleStore 4 = defaultCols"
  "layoutMaps sampleStore 10 = [(''lg'', layoutLg), (''sm'', layoutSm)]"
  "layoutMaps sampleStore 11 = [(''sm'', layoutSm)]"
  "layoutMaps sampleStore 12 = [(''lg'', layoutSm)]"
  by (simp_all add: sampleStore_def)

lemma sample_helpers:
  "getBreakpointFromWidth sampleUtils bps w = (case resolveBreakpoint bps w of Some n \<Rightarrow> n | None \<Rightarrow> [])"
  "getColsFromBreakpoint sampleUtils = resolveColumns"
  "findOrGenerateResponsiveLayout sampleUtils ls bps target fallback c t =
     (case map_of ls target of Some l \<Rightarrow> l | None \<Rightarrow> [])"
  "synchronizeLayoutWithChildren sampleUtils = synchronize"
  "cloneLayout sampleUtils l = l"
  by (simp_all add: sampleUtils_def)

lemma sample_columns:
  "resolveColumns ''lg'' defaultCols = Inr 12"
  "resolveColumns ''sm'' defaultCols = Inr 6"
  by (simp_all add: resolveColumns_def defaultCols_def)

lemma sample_newBreakpoint:
  "newBreakpointOf sampleUtils sampleStore (sampleProps\<lparr>width := 900\<rparr>) = ''sm''"
  "newBreakpointOf sampleUtils sampleStore (sampleProps\<lparr>layouts := 11, width := 900\<rparr>) = ''sm''"
  "newBreakpointOf sampleUtils sampleStore (sampleProps\<lparr>width := 1250\<rparr>) = ''lg''"
  "newBreakpointOf sampleUtils sampleStore (sampleProps\<lparr>breakpoints := 3, width := 1250\<rparr>) = ''lg''"
  by (simp_all add: newBreakpointOf_def widthForBreakpoint_def sampleProps_def sample_objects
      sample_helpers resolve_default)

lemma sample_newLayout:
  "newLayoutOf sampleUtils sampleStore sampleState (sampleProps\<lparr>width := 900\<rparr>) ''sm'' 6 = layoutSm"
  "newLayoutOf sampleUtils sampleStore sampleState (sampleProps\<lparr>layouts := 11, width := 900\<rparr>) ''sm'' 6
     = layoutSm"
  "newLayoutOf sampleUtils sampleStore sampleState (sampleProps\<lparr>breakpoints := 3, width := 1250\<rparr>) ''lg'' 12
     = layoutLg"
  by (simp_all add: newLayoutOf_def preserveLayout_def hasKey_def setKey_def sampleProps_def
      sampleState_def sample_objects sample_helpers synchronize_layoutSm synchronize_layoutLg)

lemma sample_storedLayouts:
  "storedLayouts sampleUtils sampleStore sampleState (sampleProps\<lparr>width := 900\<rparr>) ''sm'' 6
     = [(''lg'', layoutLg), (''sm'', layoutSm)]"
  "storedLayouts sampleUtils sampleStore sampleState (sampleProps\<lparr>layouts := 11, width := 900\<rparr>) ''sm'' 6
     = [(''sm'', layoutSm), (''lg'', layoutLg)]"
  "storedLayouts sampleUtils sampleStore sampleState (sampleProps\<lparr>breakpoints := 3, width := 1250\<rparr>) ''lg'' 12
     = [(''lg'', layoutLg), (''sm'', layoutSm)]"
  by (simp_all add: storedLayouts_def sample_newLayout)
     (simp_all add: preserveLayout_def hasKey_def setKey_def sampleProps_def
      sampleState_def sample_objects sample_helpers)

lemma sample_store_rewritten:
  "sampleStore\<lparr>layoutMaps := (layoutMaps sampleStore)(10 := [(''lg'', layoutLg), (''sm'', layoutSm)])\<rparr>
     = sampleStore"
  by (simp add: sampleStore_def fun_eq_iff)

text \<open>
  What no transition changes: the width held in the state, the breakpoints and columns
  objects, and every layouts object but the one the next props bring.
\<close>

lemma componentWillReceiveProps_width:
  assumes "componentWillReceiveProps U H props st nextProps = Inr (st', H', es)"
  shows "state_width st' = state_width st"
  using assms
  by (auto simp: componentWillReceiveProps_def onWidthChange_def Let_def
      split: if_splits sum.splits)

lemma componentWillReceiveProps_store:
  assumes "componentWillReceiveProps U H props st nextProps = Inr (st', H', es)"
  shows "numberMaps H' = numberMaps H \<and>
         (\<forall>r. r \<noteq> layouts nextProps \<longrightarrow> layoutMaps H' r = layoutMaps H r)"
  using assms
  by (auto simp: componentWillReceiveProps_def onWidthChange_def Let_def
      split: if_splits sum.splits)

text \<open>The sample state is the initial state of the sample props.\<close>

lemma sample_initial_state:
  "generateInitialState sampleUtils sampleStore sampleProps = Inr (sampleState, [OnInit sampleState])"
  by (simp add: generateInitialState_def widthForBreakpoint_def sample_helpers)
     (simp add: sampleProps_def sampleState_def sample_objects resolve_default sample_columns
        sample_helpers Let_def)

text \<open>
  C1. Whenever the first branch of \<^verbatim>\<open>componentWillReceiveProps\<close> is taken, the
  columns resolve, and the breakpoint-change test holds (the new breakpoint differs from
  the state's, or the \<^verbatim>\<open>breakpoints\<close> or \<^verbatim>\<open>cols\<close> object changed, be it by identity
  or by value), the callbacks of the transition are exactly three, in this order:
  \<^verbatim>\<open>onBreakpointChange(newBreakpoint, newCols)\<close>, then
  \<^verbatim>\<open>onLayoutChange(layout, layouts)\<close> with the synchronized layout and the received
  layouts object, which then holds that layout under the new breakpoint, then
  \<^verbatim>\<open>onWidthChange(width, margin, newCols, containerPadding)\<close>.
\<close>

theorem callbacks_fire_in_fixed_order:
  assumes "widthAffectingChange H props nextProps"
    and "getColsFromBreakpoint U (newBreakpointOf U H nextProps) (numberMaps H (cols nextProps))
           = Inr newCols"
    and "breakpointChange props st nextProps (newBreakpointOf U H nextProps) \<or>
         \<not> isEqual (numberMaps H (breakpoints nextProps)) (numberMaps H (breakpoints props)) \<or>
         \<not> isEqual (numberMaps H (cols nextProps)) (numberMaps H (cols props))"
  shows "\<exists>st' H'.
           componentWillReceiveProps U H props st nextProps =
             Inr (st', H',
                  [OnBreakpointChange (newBreakpointOf U H nextProps) newCols,
                   OnLayoutChange (newLayoutOf U H st nextProps (newBreakpointOf U H nextProps) newCols)
                     (SameObject (layouts nextProps)),
                   OnWidthChange (width nextProps) (margin nextProps) newCols
                     (containerPadding nextProps)]) \<and>
           layoutMaps H' (layouts nextProps) =
             storedLayouts U H st nextProps (newBreakpointOf U H nextProps) newCols"
proof -
  from assms(3) have "breakpointChange props st nextProps (newBreakpointOf U H nextProps)"
    by (auto simp: breakpointChange_def isEqual_refl)
  from onWidthChange_change [OF assms(2) this] assms(1) show ?thesis
    by (simp add: componentWillReceiveProps_def widthCallback_def)
qed

theorem callbacks_fire_in_fixed_order_witness:
  "\<exists>st' H'.
     componentWillReceiveProps sampleUtils sampleStore sampleProps sampleState
         (sampleProps\<lparr>width := 900\<rparr>) =
       Inr (st', H',
            [OnBreakpointChange ''sm'' 6, OnLayoutChange layoutSm (SameObject 10),
             OnWidthChange 900 (10, 10) 6 None]) \<and>
     layoutMaps H' 10 = [(''lg'', layoutLg), (''sm'', layoutSm)]"
proof -
  let ?next = "sampleProps\<lparr>width := 900\<rparr>"
  have a: "widthAffectingChange sampleStore sampleProps ?next"
    by (simp add: widthAffectingChange_def sampleProps_def)
  have c: "getColsFromBreakpoint sampleUtils (newBreakpointOf sampleUtils sampleStore ?next)
             (numberMaps sampleStore (cols ?next)) = Inr 6"
    by (simp add: sample_newBreakpoint sample_helpers) (simp add: sampleProps_def sample_objects sample_columns)
  have g: "breakpointChange sampleProps sampleState ?next (newBreakpointOf sampleUtils sampleStore ?next) \<or>
         \<not> isEqual (numberMaps sampleStore (breakpoints ?next)) (numberMaps sampleStore (breakpoints sampleProps)) \<or>
         \<not> isEqual (numberMaps sampleStore (cols ?next)) (numberMaps sampleStore (cols sampleProps))"
    by (simp add: breakpointChange_def sample_newBreakpoint sampleState_def)
  from callbacks_fire_in_fixed_order [OF a c g] show ?thesis
    by (simp add: sample_newBreakpoint sample_newLayout sample_storedLayouts)
       (simp add: sampleProps_def)
qed

text \<open>
  C2. A change of \<^verbatim>\<open>layouts\<close> alone does not fire \<^verbatim>\<open>onLayoutChange\<close>. On the
  sample configuration, replacing the layouts object by the one at address 12 (other
  contents, everything else the same) takes the second branch, installs the new layout
  of \<open>lg\<close> and calls no callback.
\<close>

theorem layouts_change_fires_no_callback_counterexample:
  "\<not> widthAffectingChange sampleStore sampleProps (sampleProps\<lparr>layouts := 12\<rparr>) \<and>
   layoutsChange sampleStore sampleProps (sampleProps\<lparr>layouts := 12\<rparr>) \<and>
   componentWillReceiveProps sampleUtils sampleStore sampleProps sampleState
       (sampleProps\<lparr>layouts := 12\<rparr>) =
     Inr (sampleState\<lparr>state_layout := layoutSm\<rparr>, sampleStore, [])"
proof -
  have a: "\<not> widthAffectingChange sampleStore sampleProps (sampleProps\<lparr>layouts := 12\<rparr>)"
    by (simp add: widthAffectingChange_def isEqual_refl)
  have b: "layoutsChange sampleStore sampleProps (sampleProps\<lparr>layouts := 12\<rparr>)"
    by (simp add: layoutsChange_def isEqual_def sampleProps_def sample_objects layoutLg_def
        layoutSm_def)
  from a b show ?thesis
    by (simp add: componentWillReceiveProps_def sample_helpers)
       (simp add: sampleProps_def sampleState_def sample_objects)
qed

text \<open>
  C2, amended. When the first branch is not taken and the contents of
  \<^verbatim>\<open>nextProps.layouts\<close> differ from those of \<^verbatim>\<open>this.props.layouts\<close>, the component
  finds or generates a layout for the current breakpoint (target and fallback both the
  current breakpoint, with the current columns), installs it as the state's layout,
  leaves the breakpoint, the columns, the width and the store unchanged, and calls no
  callback itself.
\<close>

theorem layouts_change_installs_layout_only:
  assumes "\<not> widthAffectingChange H props nextProps"
    and "layoutsChange H props nextProps"
  shows "componentWillReceiveProps U H props st nextProps =
    Inr (st\<lparr>state_layout :=
              findOrGenerateResponsiveLayout U (layoutMaps H (layouts nextProps))
                (numberMaps H (breakpoints nextProps)) (state_breakpoint st)
                (state_breakpoint st) (state_cols st) (compactType nextProps)\<rparr>,
         H, [])"
  using assms by (simp add: componentWillReceiveProps_def)

theorem layouts_change_installs_layout_only_witness:
  "componentWillReceiveProps sampleUtils sampleStore sampleProps sampleState
       (sampleProps\<lparr>layouts := 12\<rparr>) =
     Inr (\<lparr>state_layout = layoutSm, state_breakpoint = ''lg'', state_cols = 12,
            state_width = 1300\<rparr>,
          sampleStore, [])"
proof -
  have a: "\<not> widthAffectingChange sampleStore sampleProps (sampleProps\<lparr>layouts := 12\<rparr>)"
    by (simp add: widthAffectingChange_def isEqual_refl)
  have b: "layoutsChange sampleStore sampleProps (sampleProps\<lparr>layouts := 12\<rparr>)"
    by (simp add: layoutsChange_def isEqual_def sampleProps_def sample_objects layoutLg_def
        layoutSm_def)
  from layouts_change_installs_layout_only [OF a b, of sampleUtils sampleState]
  show ?thesis
    by (simp add: sample_helpers) (simp add: sampleProps_def sampleState_def sample_objects)
qed

text \<open>
  C3. The component writes into the layouts object it receives. On the sample
  configuration, when the next props bring the layouts object at address 11 (key \<open>sm\<close>
  only) and the width 900 for 1300, that object holds the keys \<open>sm\<close> and \<open>lg\<close>
  after the transition: the state's layout was stored under \<open>lg\<close> (line 240) and the
  new layout under \<open>sm\<close> (line 261).
\<close>

theorem received_layouts_written_in_place:
  "layoutMaps sampleStore 11 = [(''sm'', layoutSm)] \<and>
   componentWillReceiveProps sampleUtils sampleStore sampleProps sampleState
       (sampleProps\<lparr>layouts := 11, width := 900\<rparr>) =
     Inr (\<lparr>state_layout = layoutSm, state_breakpoint = ''sm'', state_cols = 6,
            state_width = 1300\<rparr>,
          sampleStore\<lparr>layoutMaps :=
            (layoutMaps sampleStore)(11 := [(''sm'', layoutSm), (''lg'', layoutLg)])\<rparr>,
          [OnBreakpointChange ''sm'' 6, OnLayoutChange layoutSm (SameObject 11),
           OnWidthChange 900 (10, 10) 6 None])"
proof -
  let ?next = "sampleProps\<lparr>layouts := 11, width := 900\<rparr>"
  have a: "widthAffectingChange sampleStore sampleProps ?next"
    by (simp add: widthAffectingChange_def sampleProps_def)
  have c: "getColsFromBreakpoint sampleUtils (newBreakpointOf sampleUtils sampleStore ?next)
             (numberMaps sampleStore (cols ?next)) = Inr 6"
    by (simp add: sample_newBreakpoint sample_helpers)
       (simp add: sampleProps_def sample_objects sample_columns)
  have g: "breakpointChange sampleProps sampleState ?next
             (newBreakpointOf sampleUtils sampleStore ?next)"
    by (simp add: breakpointChange_def sample_newBreakpoint sampleState_def)
  from onWidthChange_change [OF c g] a show ?thesis
    by (simp add: componentWillReceiveProps_def sample_newBreakpoint sample_newLayout
        sample_storedLayouts sample_objects widthCallback_def)
       (simp add: sampleProps_def sampleState_def)
qed

theorem received_layouts_written_in_place_witness:
  "\<exists>st' H' es.
     componentWillReceiveProps sampleUtils sampleStore sampleProps sampleState
         (sampleProps\<lparr>layouts := 11, width := 900\<rparr>) = Inr (st', H', es) \<and>
     layoutMaps H' 11 \<noteq> layoutMaps sampleStore 11"
  using received_layouts_written_in_place by simp

text \<open>
  C4. \<^verbatim>\<open>setState\<close> at lines 267 to 271 sets the breakpoint, the layout and the columns
  and not the width. On the sample configuration, with the width going from 1300 to 900,
  the state after the transition has the breakpoint \<open>sm\<close>, 6 columns, the layout of
  \<open>sm\<close>, and still the width 1300.
\<close>

theorem state_width_not_updated:
  "width (sampleProps\<lparr>width := 900\<rparr>) = 900 \<and>
   componentWillReceiveProps sampleUtils sampleStore sampleProps sampleState
       (sampleProps\<lparr>width := 900\<rparr>) =
     Inr (\<lparr>state_layout = layoutSm, state_breakpoint = ''sm'', state_cols = 6,
            state_width = 1300\<rparr>,
          sampleStore,
          [OnBreakpointChange ''sm'' 6, OnLayoutChange layoutSm (SameObject 10),
           OnWidthChange 900 (10, 10) 6 None])"
proof -
  let ?next = "sampleProps\<lparr>width := 900\<rparr>"
  have a: "widthAffectingChange sampleStore sampleProps ?next"
    by (simp add: widthAffectingChange_def sampleProps_def)
  have c: "getColsFromBreakpoint sampleUtils (newBreakpointOf sampleUtils sampleStore ?next)
             (numberMaps sampleStore (cols ?next)) = Inr 6"
    by (simp add: sample_newBreakpoint sample_helpers) (simp add: sampleProps_def sample_objects sample_columns)
  have g: "breakpointChange sampleProps sampleState ?next
             (newBreakpointOf sampleUtils sampleStore ?next)"
    by (simp add: breakpointChange_def sample_newBreakpoint sampleState_def)
  from onWidthChange_change [OF c g] a show ?thesis
    by (simp add: componentWillReceiveProps_def sample_newBreakpoint sample_newLayout
        sample_storedLayouts widthCallback_def)
       (simp add: sampleProps_def sampleState_def sample_store_rewritten)
qed

theorem state_width_not_updated_witness:
  "\<exists>st' H' es.
     componentWillReceiveProps sampleUtils sampleStore sampleProps sampleState
         (sampleProps\<lparr>width := 900\<rparr>) = Inr (st', H', es) \<and>
     state_width st' \<noteq> width (sampleProps\<lparr>width := 900\<rparr>)"
  using state_width_not_updated by simp

text \<open>
  C5. The test at lines 233 to 237 compares the \<^verbatim>\<open>breakpoints\<close> and \<^verbatim>\<open>cols\<close> objects
  by identity. On the sample configuration, with a second breakpoints object of the same
  contents (address 3 for address 2) and the width going from 1300 to 1250, both tables
  are equal by value and the new breakpoint is the state's, \<open>lg\<close>; the
  breakpoint-change block runs all the same and calls \<^verbatim>\<open>onBreakpointChange\<close> and
  \<^verbatim>\<open>onLayoutChange\<close>.
\<close>

theorem breakpoint_block_runs_on_equal_maps:
  "isEqual (numberMaps sampleStore (breakpoints (sampleProps\<lparr>breakpoints := 3, width := 1250\<rparr>)))
     (numberMaps sampleStore (breakpoints sampleProps)) \<and>
   isEqual (numberMaps sampleStore (cols (sampleProps\<lparr>breakpoints := 3, width := 1250\<rparr>)))
     (numberMaps sampleStore (cols sampleProps)) \<and>
   newBreakpointOf sampleUtils sampleStore (sampleProps\<lparr>breakpoints := 3, width := 1250\<rparr>)
     = state_breakpoint sampleState \<and>
   componentWillReceiveProps sampleUtils sampleStore sampleProps sampleState
       (sampleProps\<lparr>breakpoints := 3, width := 1250\<rparr>) =
     Inr (sampleState, sampleStore,
          [OnBreakpointChange ''lg'' 12, OnLayoutChange layoutLg (SameObject 10),
           OnWidthChange 1250 (10, 10) 12 None])"
proof -
  let ?next = "sampleProps\<lparr>breakpoints := 3, width := 1250\<rparr>"
  have a: "widthAffectingChange sampleStore sampleProps ?next"
    by (simp add: widthAffectingChange_def sampleProps_def)
  have c: "getColsFromBreakpoint sampleUtils (newBreakpointOf sampleUtils sampleStore ?next)
             (numberMaps sampleStore (cols ?next)) = Inr 12"
    by (simp add: sample_newBreakpoint sample_helpers) (simp add: sampleProps_def sample_objects sample_columns)
  have g: "breakpointChange sampleProps sampleState ?next
             (newBreakpointOf sampleUtils sampleStore ?next)"
    by (simp add: breakpointChange_def sampleProps_def)
  have e: "isEqual (numberMaps sampleStore (breakpoints ?next))
             (numberMaps sampleStore (breakpoints sampleProps))"
    by (simp add: sampleProps_def sample_objects isEqual_refl)
  have e': "isEqual (numberMaps sampleStore (cols ?next)) (numberMaps sampleStore (cols sampleProps))"
    by (simp add: isEqual_refl)
  have s: "sampleState\<lparr>state_breakpoint := ''lg'', state_layout := layoutLg, state_cols := 12\<rparr>
             = sampleState"
    by (simp add: sampleState_def)
  from onWidthChange_change [OF c g] a e e' s show ?thesis
    by (simp add: componentWillReceiveProps_def sample_newBreakpoint sample_newLayout
        sample_storedLayouts widthCallback_def)
       (simp add: sampleProps_def sampleState_def sample_store_rewritten)
qed

theorem breakpoint_block_runs_on_equal_maps_witness:
  "\<exists>st' H' es.
     componentWillReceiveProps sampleUtils sampleStore sampleProps sampleState
         (sampleProps\<lparr>breakpoints := 3, width := 1250\<rparr>) =
       Inr (st', H', OnBreakpointChange (state_breakpoint sampleState) 12 # es)"
  using breakpoint_block_runs_on_equal_maps by (simp add: sampleState_def)

text \<open>
  The call of \<^verbatim>\<open>onWidthChange\<close> (lines 273 to 279) is outside the breakpoint-change
  block. Whenever the first branch is taken and the columns resolve, the transition calls
  \<^verbatim>\<open>onWidthChange(nextProps.width, nextProps.margin, newCols, nextProps.containerPadding)\<close>
  exactly once: its callbacks are either that call alone or \<^verbatim>\<open>onBreakpointChange\<close>,
  \<^verbatim>\<open>onLayoutChange\<close> and that call. When the next props are the current ones with
  another width, so that they hold the very same \<^verbatim>\<open>breakpoints\<close> and \<^verbatim>\<open>cols\<close>
  objects, and the breakpoint resolved is the state's, that call is the only callback,
  and state and store are unchanged.
\<close>

theorem width_callback_fires_once:
  "(widthAffectingChange H props nextProps \<and>
    getColsFromBreakpoint U (newBreakpointOf U H nextProps) (numberMaps H (cols nextProps))
      = Inr newCols \<longrightarrow>
    (\<exists>st' H' es.
       componentWillReceiveProps U H props st nextProps = Inr (st', H', es) \<and>
       (es = [OnWidthChange (width nextProps) (margin nextProps) newCols (containerPadding nextProps)] \<or>
        (\<exists>layout.
           es = [OnBreakpointChange (newBreakpointOf U H nextProps) newCols,
                 OnLayoutChange layout (SameObject (layouts nextProps)),
                 OnWidthChange (width nextProps) (margin nextProps) newCols
                   (containerPadding nextProps)])))) \<and>
   (w \<noteq> width props \<and>
    newBreakpointOf U H (props\<lparr>width := w\<rparr>) = state_breakpoint st \<and>
    getColsFromBreakpoint U (state_breakpoint st) (numberMaps H (cols props)) = Inr c \<longrightarrow>
    componentWillReceiveProps U H props st (props\<lparr>width := w\<rparr>) =
      Inr (st, H, [OnWidthChange w (margin props) c (containerPadding props)]))"
proof (intro conjI impI)
  assume h: "widthAffectingChange H props nextProps \<and>
    getColsFromBreakpoint U (newBreakpointOf U H nextProps) (numberMaps H (cols nextProps))
      = Inr newCols"
  show "\<exists>st' H' es.
       componentWillReceiveProps U H props st nextProps = Inr (st', H', es) \<and>
       (es = [OnWidthChange (width nextProps) (margin nextProps) newCols (containerPadding nextProps)] \<or>
        (\<exists>layout.
           es = [OnBreakpointChange (newBreakpointOf U H nextProps) newCols,
                 OnLayoutChange layout (SameObject (layouts nextProps)),
                 OnWidthChange (width nextProps) (margin nextProps) newCols
                   (containerPadding nextProps)]))"
  proof (cases "breakpointChange props st nextProps (newBreakpointOf U H nextProps)")
    case True
    from h onWidthChange_change [OF _ True, of newCols] show ?thesis
      by (simp add: componentWillReceiveProps_def widthCallback_def)
  next
    case False
    from h onWidthChange_same [OF _ False, of newCols] show ?thesis
      by (simp add: componentWillReceiveProps_def widthCallback_def)
  qed
next
  let ?next = "props\<lparr>width := w\<rparr>"
  assume h: "w \<noteq> width props \<and>
    newBreakpointOf U H ?next = state_breakpoint st \<and>
    getColsFromBreakpoint U (state_breakpoint st) (numberMaps H (cols props)) = Inr c"
  then have a: "widthAffectingChange H props ?next"
    by (simp add: widthAffectingChange_def)
  from h have g: "\<not> breakpointChange props st ?next (newBreakpointOf U H ?next)"
    by (simp add: breakpointChange_def)
  from h have "getColsFromBreakpoint U (newBreakpointOf U H ?next) (numberMaps H (cols ?next)) = Inr c"
    by simp
  from onWidthChange_same [OF this g] a
  show "componentWillReceiveProps U H props st ?next =
      Inr (st, H, [OnWidthChange w (margin props) c (containerPadding props)])"
    by (simp add: componentWillReceiveProps_def widthCallback_def)
qed

theorem width_callback_fires_once_witness:
  "componentWillReceiveProps sampleUtils sampleStore sampleProps sampleState
       (sampleProps\<lparr>width := 1250\<rparr>) =
     Inr (sampleState, sampleStore, [OnWidthChange 1250 (10, 10) 12 None])"
proof -
  let ?next = "sampleProps\<lparr>width := 1250\<rparr>"
  have a: "widthAffectingChange sampleStore sampleProps ?next"
    by (simp add: widthAffectingChange_def sampleProps_def)
  have c: "getColsFromBreakpoint sampleUtils (newBreakpointOf sampleUtils sampleStore ?next)
             (numberMaps sampleStore (cols ?next)) = Inr 12"
    by (simp add: sample_newBreakpoint sample_helpers) (simp add: sampleProps_def sample_objects sample_columns)
  have c': "getColsFromBreakpoint sampleUtils (state_breakpoint sampleState)
             (numberMaps sampleStore (cols sampleProps)) = Inr 12"
    by (simp add: sample_helpers) (simp add: sampleProps_def sampleState_def sample_objects sample_columns)
  have w: "1250 \<noteq> width sampleProps" by (simp add: sampleProps_def)
  have n: "newBreakpointOf sampleUtils sampleStore ?next = state_breakpoint sampleState"
    by (simp add: sample_newBreakpoint sampleState_def)
  from width_callback_fires_once [of sampleStore sampleProps ?next sampleUtils 12 sampleState 1250 12]
    a c c' w n
  show ?thesis by (simp add: sampleProps_def)
qed

text \<open>
  C6. A change of the width alone, within the same breakpoint, does not always fire
  \<^verbatim>\<open>onWidthChange\<close> only. On the sample configuration the width goes from 1300 to
  1250, both \<open>lg\<close>, and every other prop has the value it had, the breakpoints table
  in a second object of the same contents (address 3 for address 2). The test at lines
  233 to 237 compares the objects by identity, so the breakpoint-change block runs:
  \<^verbatim>\<open>onBreakpointChange\<close>, \<^verbatim>\<open>onLayoutChange\<close> and then \<^verbatim>\<open>onWidthChange\<close> are
  called, \<^verbatim>\<open>onWidthChange\<close> once.
\<close>

theorem width_only_change_fires_all_callbacks:
  "width (sampleProps\<lparr>breakpoints := 3, width := 1250\<rparr>) \<noteq> width sampleProps \<and>
   viewportWidth (sampleProps\<lparr>breakpoints := 3, width := 1250\<rparr>) = viewportWidth sampleProps \<and>
   breakpoint (sampleProps\<lparr>breakpoints := 3, width := 1250\<rparr>) = breakpoint sampleProps \<and>
   isEqual (numberMaps sampleStore (breakpoints (sampleProps\<lparr>breakpoints := 3, width := 1250\<rparr>)))
     (numberMaps sampleStore (breakpoints sampleProps)) \<and>
   isEqual (numberMaps sampleStore (cols (sampleProps\<lparr>breakpoints := 3, width := 1250\<rparr>)))
     (numberMaps sampleStore (cols sampleProps)) \<and>
   \<not> layoutsChange sampleStore sampleProps (sampleProps\<lparr>breakpoints := 3, width := 1250\<rparr>) \<and>
   getBreakpointFromWidth sampleUtils defaultBreakpoints 1300 = ''lg'' \<and>
   getBreakpointFromWidth sampleUtils defaultBreakpoints 1250 = ''lg'' \<and>
   componentWillReceiveProps sampleUtils sampleStore sampleProps sampleState
       (sampleProps\<lparr>breakpoints := 3, width := 1250\<rparr>) =
     Inr (sampleState, sampleStore,
          [OnBreakpointChange ''lg'' 12, OnLayoutChange layoutLg (SameObject 10),
           OnWidthChange 1250 (10, 10) 12 None])"
proof -
  let ?next = "sampleProps\<lparr>breakpoints := 3, width := 1250\<rparr>"
  have a: "widthAffectingChange sampleStore sampleProps ?next"
    by (simp add: widthAffectingChange_def sampleProps_def)
  have c: "getColsFromBreakpoint sampleUtils (newBreakpointOf sampleUtils sampleStore ?next)
             (numberMaps sampleStore (cols ?next)) = Inr 12"
    by (simp add: sample_newBreakpoint sample_helpers)
       (simp add: sampleProps_def sample_objects sample_columns)
  have g: "breakpointChange sampleProps sampleState ?next
             (newBreakpointOf sampleUtils sampleStore ?next)"
    by (simp add: breakpointChange_def sampleProps_def)
  have e: "isEqual (numberMaps sampleStore (breakpoints ?next))
             (numberMaps sampleStore (breakpoints sampleProps))"
    by (simp add: sampleProps_def sample_objects isEqual_refl)
  have e': "isEqual (numberMaps sampleStore (cols ?next)) (numberMaps sampleStore (cols sampleProps))"
    by (simp add: isEqual_refl)
  have l: "\<not> layoutsChange sampleStore sampleProps ?next"
    by (simp add: layoutsChange_def isEqual_refl)
  have r: "getBreakpointFromWidth sampleUtils defaultBreakpoints 1300 = ''lg''"
    "getBreakpointFromWidth sampleUtils defaultBreakpoints 1250 = ''lg''"
    by (simp_all add: sample_helpers resolve_default)
  have f: "width ?next \<noteq> width sampleProps" "viewportWidth ?next = viewportWidth sampleProps"
    "breakpoint ?next = breakpoint sampleProps"
    by (simp_all add: sampleProps_def)
  have s: "sampleState\<lparr>state_breakpoint := ''lg'', state_layout := layoutLg, state_cols := 12\<rparr>
             = sampleState"
    by (simp add: sampleState_def)
  have "componentWillReceiveProps sampleUtils sampleStore sampleProps sampleState ?next =
     Inr (sampleState, sampleStore,
          [OnBreakpointChange ''lg'' 12, OnLayoutChange layoutLg (SameObject 10),
           OnWidthChange 1250 (10, 10) 12 None])"
    using onWidthChange_change [OF c g] a s
    by (simp add: componentWillReceiveProps_def sample_newBreakpoint sample_newLayout
        sample_storedLayouts widthCallback_def)
       (simp add: sampleProps_def sampleState_def sample_store_rewritten)
  with e e' l r f show ?thesis by blast
qed

theorem width_only_change_fires_all_callbacks_witness:
  "\<exists>st' H' es.
     componentWillReceiveProps sampleUtils sampleStore sampleProps sampleState
         (sampleProps\<lparr>breakpoints := 3, width := 1250\<rparr>) = Inr (st', H', es) \<and>
     es \<noteq> [OnWidthChange 1250 (10, 10) 12 None] \<and>
     OnBreakpointChange ''lg'' 12 \<in> set es"
  using width_only_change_fires_all_callbacks by simp

text \<open>
  C9. For every layout reported by the grid, \<^verbatim>\<open>onLayoutChange\<close> calls the host's
  \<^verbatim>\<open>onLayoutChange\<close> once, with that layout and a new object that maps the current
  breakpoint to that layout and every other key as the current \<^verbatim>\<open>layouts\<close> prop does;
  state and store are unchanged.
\<close>

theorem user_layout_change_reports_full_map:
  "\<exists>m. onLayoutChange H props st layout = (st, H, [OnLayoutChange layout (NewObject m)]) \<and>
       map_of m = (map_of (layoutMaps H (layouts props)))(state_breakpoint st \<mapsto> layout)"
  by (simp add: onLayoutChange_def setKey_def update_conv')

theorem user_layout_change_reports_full_map_witness:
  "\<exists>m. onLayoutChange sampleStore sampleProps sampleState layoutSm =
         (sampleState, sampleStore, [OnLayoutChange layoutSm (NewObject m)]) \<and>
       map_of m ''lg'' = Some layoutSm \<and> map_of m ''sm'' = Some layoutSm \<and>
       map_of m ''md'' = None"
  using user_layout_change_reports_full_map [of sampleStore sampleProps sampleState layoutSm]
  by (auto simp: sampleProps_def sampleState_def sample_objects)

text \<open>
  C10. With the empty string as \<^verbatim>\<open>breakpoint\<close> prop, the new breakpoint is the one
  resolved from the width, and \<^verbatim>\<open>onWidthChange\<close> does what it does with no
  \<^verbatim>\<open>breakpoint\<close> prop at all; a \<^verbatim>\<open>breakpoint\<close> prop that is not empty is the new
  breakpoint.
\<close>

theorem empty_breakpoint_override_is_ignored:
  "newBreakpointOf U H (nextProps\<lparr>breakpoint := Some []\<rparr>) =
     getBreakpointFromWidth U (numberMaps H (breakpoints nextProps)) (widthForBreakpoint nextProps) \<and>
   onWidthChange U H props st (nextProps\<lparr>breakpoint := Some []\<rparr>) =
     onWidthChange U H props st (nextProps\<lparr>breakpoint := None\<rparr>) \<and>
   (b \<noteq> [] \<longrightarrow> newBreakpointOf U H (nextProps\<lparr>breakpoint := Some b\<rparr>) = b)"
proof -
  have n: "newBreakpointOf U H (nextProps\<lparr>breakpoint := Some []\<rparr>) =
             getBreakpointFromWidth U (numberMaps H (breakpoints nextProps))
               (widthForBreakpoint nextProps)"
    and n': "newBreakpointOf U H (nextProps\<lparr>breakpoint := None\<rparr>) =
             getBreakpointFromWidth U (numberMaps H (breakpoints nextProps))
               (widthForBreakpoint nextProps)"
    and nb: "b \<noteq> [] \<longrightarrow> newBreakpointOf U H (nextProps\<lparr>breakpoint := Some b\<rparr>) = b"
    by (simp_all add: newBreakpointOf_def widthForBreakpoint_def)
  have rest: "breakpointChange props st (nextProps\<lparr>breakpoint := v\<rparr>) k =
                breakpointChange props st nextProps k"
    "newLayoutOf U H st (nextProps\<lparr>breakpoint := v\<rparr>) k c = newLayoutOf U H st nextProps k c"
    "storedLayouts U H st (nextProps\<lparr>breakpoint := v\<rparr>) k c = storedLayouts U H st nextProps k c"
    "widthCallback (nextProps\<lparr>breakpoint := v\<rparr>) c = widthCallback nextProps c"
    "layouts (nextProps\<lparr>breakpoint := v\<rparr>) = layouts nextProps"
    "cols (nextProps\<lparr>breakpoint := v\<rparr>) = cols nextProps"
    for v k c
    by (simp_all add: breakpointChange_def newLayoutOf_def storedLayouts_def widthCallback_def)
  have "onWidthChange U H props st (nextProps\<lparr>breakpoint := Some []\<rparr>) =
          onWidthChange U H props st (nextProps\<lparr>breakpoint := None\<rparr>)"
    unfolding onWidthChange_def n n' rest by (rule refl)
  with n nb show ?thesis by simp
qed

theorem empty_breakpoint_override_is_ignored_witness:
  "newBreakpointOf sampleUtils sampleStore (sampleProps\<lparr>width := 900, breakpoint := Some []\<rparr>) = ''sm'' \<and>
   newBreakpointOf sampleUtils sampleStore (sampleProps\<lparr>width := 900, breakpoint := Some ''lg''\<rparr>) = ''lg''"
proof -
  have "''lg'' \<noteq> []" by simp
  with empty_breakpoint_override_is_ignored
     [of sampleUtils sampleStore "sampleProps\<lparr>width := 900\<rparr>" sampleProps sampleState "''lg''"]
  show ?thesis
    by (simp add: widthForBreakpoint_def sample_helpers)
       (simp add: sampleProps_def sample_objects resolve_default)
qed

end
